theory Spec2Isabelle
  imports Main
begin

section \<open>JavaScript values\<close>

text \<open>
  The hooks are generic in the type \<open>T\<close> of the persisted value. The model fixes one
  universal type of values: \<open>undefined\<close>, \<open>null\<close>, booleans, numbers, strings, arrays
  and plain objects. Numbers are the integral ones (type \<open>int\<close>); strings are lists of
  code units below 256 (type \<open>string\<close>); an object is the list of its own properties in
  enumeration order. Functions are not values of this type: the one place where the
  source tells a function from a value, the setter's argument, has a type of its own
  (\<open>SetStateAction\<close>).
\<close>

datatype jsval =
    JUndefined
  | JNull
  | JBool bool
  | JNum int
  | JStr string
  | JArr "jsval list"
  | JObj "(string \<times> jsval) list"

text \<open>
  What a \<open>throw\<close> carries. \<open>SyntaxError\<close> is raised by \<open>JSON.parse\<close>,
  \<open>SecurityError\<close> and \<open>QuotaExceededError\<close> by the storage, \<open>Error\<close> by
  \<open>new Error(message)\<close> and by caller-supplied functions. \<open>Unmodelled\<close> is not a
  JavaScript error: \<open>JSON_parse\<close> returns it for a text whose value lies outside
  \<open>jsval\<close> (a number with a fraction or an exponent, an escape for a code unit above
  255).
\<close>

datatype js_error =
    SyntaxError
  | SecurityError
  | QuotaExceededError
  | Error string
  | Unmodelled

subsection \<open>Characters\<close>

definition dquote :: char where
  "dquote = CHR 0x22"

definition backslash :: char where
  "backslash = CHR 0x5C"

definition is_ws :: "char \<Rightarrow> bool" where
  "is_ws c = (c = CHR 0x20 \<or> c = CHR 0x09 \<or> c = CHR 0x0A \<or> c = CHR 0x0D)"

definition is_digit :: "char \<Rightarrow> bool" where
  "is_digit c = (48 \<le> (of_char c :: nat) \<and> (of_char c :: nat) \<le> 57)"

definition digit_val :: "char \<Rightarrow> nat" where
  "digit_val c = of_char c - 48"

definition digit_char :: "nat \<Rightarrow> char" where
  "digit_char d = char_of (48 + d)"

definition hex_char :: "nat \<Rightarrow> char" where
  "hex_char d = (if d < 10 then char_of (48 + d) else char_of (87 + d))"

definition hex_val :: "char \<Rightarrow> nat option" where
  "hex_val c =
     (let n = (of_char c :: nat) in
      if 48 \<le> n \<and> n \<le> 57 then Some (n - 48)
      else if 97 \<le> n \<and> n \<le> 102 then Some (n - 87)
      else if 65 \<le> n \<and> n \<le> 70 then Some (n - 55)
      else None)"

fun join :: "string \<Rightarrow> string list \<Rightarrow> string" where
  "join sep [] = []"
| "join sep [x] = x"
| "join sep (x # y # ys) = x @ sep @ join sep (y # ys)"

subsection \<open>Number to string\<close>

fun nat_text :: "nat \<Rightarrow> string" where
  "nat_text n = (if n < 10 then [digit_char n] else nat_text (n div 10) @ [digit_char (n mod 10)])"

definition Number_toString :: "int \<Rightarrow> string" where
  "Number_toString i = (if i < 0 then CHR ''-'' # nat_text (nat (- i)) else nat_text (nat i))"

subsection \<open>\<open>JSON.stringify\<close>\<close>

text \<open>
  The abstract operations of ECMA-262 with no replacer and no indentation:
  \<open>QuoteJSONString\<close> escapes the quote, the backslash and the control characters;
  \<open>SerializeJSONProperty\<close> yields no text for \<open>undefined\<close> (\<open>None\<close>), which an array
  writes as \<open>null\<close> and an object leaves out together with its key.
\<close>

definition escape_char :: "char \<Rightarrow> string" where
  "escape_char c =
     (if c = dquote then [backslash, dquote]
      else if c = backslash then [backslash, backslash]
      else if c = CHR 0x08 then [backslash, CHR ''b'']
      else if c = CHR 0x0C then [backslash, CHR ''f'']
      else if c = CHR 0x0A then [backslash, CHR ''n'']
      else if c = CHR 0x0D then [backslash, CHR ''r'']
      else if c = CHR 0x09 then [backslash, CHR ''t'']
      else if (of_char c :: nat) < 32 then
        [backslash, CHR ''u'', CHR ''0'', CHR ''0'',
         hex_char ((of_char c :: nat) div 16), hex_char ((of_char c :: nat) mod 16)]
      else [c])"

definition QuoteJSONString :: "string \<Rightarrow> string" where
  "QuoteJSONString s = dquote # concat (map escape_char s) @ [dquote]"

fun SerializeJSONProperty :: "jsval \<Rightarrow> string option"
  and SerializeJSONArray :: "jsval list \<Rightarrow> string list"
  and SerializeJSONObject :: "(string \<times> jsval) list \<Rightarrow> string list" where
  "SerializeJSONProperty JUndefined = None"
| "SerializeJSONProperty JNull = Some ''null''"
| "SerializeJSONProperty (JBool b) = Some (if b then ''true'' else ''false'')"
| "SerializeJSONProperty (JNum n) = Some (Number_toString n)"
| "SerializeJSONProperty (JStr s) = Some (QuoteJSONString s)"
| "SerializeJSONProperty (JArr vs) = Some (''['' @ join '','' (SerializeJSONArray vs) @ '']'')"
| "SerializeJSONProperty (JObj kvs) = Some (''{'' @ join '','' (SerializeJSONObject kvs) @ ''}'')"
| "SerializeJSONArray [] = []"
| "SerializeJSONArray (v # vs) =
     (case SerializeJSONProperty v of None \<Rightarrow> ''null'' | Some t \<Rightarrow> t) # SerializeJSONArray vs"
| "SerializeJSONObject [] = []"
| "SerializeJSONObject ((k, v) # kvs) =
     (case SerializeJSONProperty v of
        None \<Rightarrow> SerializeJSONObject kvs
      | Some t \<Rightarrow> (QuoteJSONString k @ '':'' @ t) # SerializeJSONObject kvs)"

definition JSON_stringify :: "jsval \<Rightarrow> string option" where
  "JSON_stringify v = SerializeJSONProperty v"

subsection \<open>\<open>JSON.parse\<close>\<close>

text \<open>
  A recursive-descent reader of the JSON grammar: white space between tokens, the
  literals \<open>true\<close>, \<open>false\<close> and \<open>null\<close>, numbers without leading zeros, strings with
  the escapes of the grammar, arrays and objects. The recursion on nested values is
  bounded by a counter, which \<open>JSON_parse\<close> starts above the length of the text; the
  lemma \<open>JSON_round_trip\<close> shows that this is enough for every text that
  \<open>JSON_stringify\<close> writes.
\<close>

definition skip_ws :: "string \<Rightarrow> string" where
  "skip_ws s = dropWhile is_ws s"

definition prepend :: "char \<Rightarrow> js_error + (string \<times> string) \<Rightarrow> js_error + (string \<times> string)" where
  "prepend c r = (case r of Inl e \<Rightarrow> Inl e | Inr (s, rest) \<Rightarrow> Inr (c # s, rest))"

definition unescape :: "char \<Rightarrow> char option" where
  "unescape e =
     (if e = dquote then Some dquote
      else if e = backslash then Some backslash
      else if e = CHR ''/'' then Some (CHR ''/'')
      else if e = CHR ''b'' then Some (CHR 0x08)
      else if e = CHR ''f'' then Some (CHR 0x0C)
      else if e = CHR ''n'' then Some (CHR 0x0A)
      else if e = CHR ''r'' then Some (CHR 0x0D)
      else if e = CHR ''t'' then Some (CHR 0x09)
      else None)"

definition parse_hex4 :: "string \<Rightarrow> nat option" where
  "parse_hex4 s =
     (case map hex_val s of
        [Some w, Some x, Some y, Some z] \<Rightarrow> Some (((w * 16 + x) * 16 + y) * 16 + z)
      | _ \<Rightarrow> None)"

text \<open>The characters of a string after its opening quote, up to the closing one.\<close>

fun parse_chars :: "string \<Rightarrow> js_error + (string \<times> string)" where
  "parse_chars [] = Inl SyntaxError"
| "parse_chars (c # cs) =
     (if c = dquote then Inr ([], cs)
      else if c = backslash then
        (case cs of
           [] \<Rightarrow> Inl SyntaxError
         | e # cs' \<Rightarrow>
             if e = CHR ''u'' then
               (case parse_hex4 (take 4 cs') of
                  None \<Rightarrow> Inl SyntaxError
                | Some n \<Rightarrow>
                    if n < 256 then prepend (char_of n) (parse_chars (drop 4 cs'))
                    else Inl Unmodelled)
             else
               (case unescape e of
                  None \<Rightarrow> Inl SyntaxError
                | Some ch \<Rightarrow> prepend ch (parse_chars cs')))
      else if (of_char c :: nat) < 32 then Inl SyntaxError
      else prepend c (parse_chars cs))"

fun parse_digits :: "nat \<Rightarrow> string \<Rightarrow> nat \<times> string" where
  "parse_digits acc [] = (acc, [])"
| "parse_digits acc (c # cs) =
     (if is_digit c then parse_digits (10 * acc + digit_val c) cs else (acc, c # cs))"

definition parse_unsigned :: "string \<Rightarrow> js_error + (nat \<times> string)" where
  "parse_unsigned s =
     (case s of
        [] \<Rightarrow> Inl SyntaxError
      | c # cs \<Rightarrow>
          if c = CHR ''0'' then Inr (0, cs)
          else if is_digit c then Inr (parse_digits 0 s)
          else Inl SyntaxError)"

definition number_end :: "int \<Rightarrow> string \<Rightarrow> js_error + (jsval \<times> string)" where
  "number_end n r =
     (case r of
        [] \<Rightarrow> Inr (JNum n, [])
      | c # _ \<Rightarrow>
          if c = CHR ''.'' \<or> c = CHR ''e'' \<or> c = CHR ''E'' then Inl Unmodelled
          else Inr (JNum n, r))"

definition parse_number :: "string \<Rightarrow> js_error + (jsval \<times> string)" where
  "parse_number s =
     (case s of
        [] \<Rightarrow> Inl SyntaxError
      | c # cs \<Rightarrow>
          if c = CHR ''-'' then
            (case parse_unsigned cs of Inl e \<Rightarrow> Inl e | Inr (n, r) \<Rightarrow> number_end (- int n) r)
          else
            (case parse_unsigned s of Inl e \<Rightarrow> Inl e | Inr (n, r) \<Rightarrow> number_end (int n) r))"

text \<open>
  \<open>JSON.parse\<close> creates the properties of an object in the order of the text; a key
  that occurs again overwrites the value and keeps the place.
\<close>

fun CreateDataProperty :: "(string \<times> jsval) list \<Rightarrow> string \<Rightarrow> jsval \<Rightarrow> (string \<times> jsval) list" where
  "CreateDataProperty [] k v = [(k, v)]"
| "CreateDataProperty ((k', v') # ps) k v =
     (if k' = k then (k, v) # ps else (k', v') # CreateDataProperty ps k v)"

definition object_of :: "(string \<times> jsval) list \<Rightarrow> (string \<times> jsval) list" where
  "object_of kvs = foldl (\<lambda>obj (k, v). CreateDataProperty obj k v) [] kvs"

fun parse_value :: "nat \<Rightarrow> string \<Rightarrow> js_error + (jsval \<times> string)"
  and parse_elements :: "nat \<Rightarrow> string \<Rightarrow> js_error + (jsval list \<times> string)"
  and parse_members :: "nat \<Rightarrow> string \<Rightarrow> js_error + ((string \<times> jsval) list \<times> string)" where
  "parse_value 0 s = Inl SyntaxError"
| "parse_value (Suc n) s =
     (case skip_ws s of
        [] \<Rightarrow> Inl SyntaxError
      | c # cs \<Rightarrow>
          if c = CHR ''['' then
            (case skip_ws cs of
               [] \<Rightarrow> Inl SyntaxError
             | d # ds \<Rightarrow>
                 if d = CHR '']'' then Inr (JArr [], ds)
                 else (case parse_elements n (d # ds) of
                         Inl e \<Rightarrow> Inl e
                       | Inr (vs, r) \<Rightarrow> Inr (JArr vs, r)))
          else if c = CHR ''{'' then
            (case skip_ws cs of
               [] \<Rightarrow> Inl SyntaxError
             | d # ds \<Rightarrow>
                 if d = CHR ''}'' then Inr (JObj [], ds)
                 else (case parse_members n (d # ds) of
                         Inl e \<Rightarrow> Inl e
                       | Inr (kvs, r) \<Rightarrow> Inr (JObj (object_of kvs), r)))
          else if c = dquote then
            (case parse_chars cs of Inl e \<Rightarrow> Inl e | Inr (str, r) \<Rightarrow> Inr (JStr str, r))
          else if take 4 (c # cs) = ''true'' then Inr (JBool True, drop 4 (c # cs))
          else if take 5 (c # cs) = ''false'' then Inr (JBool False, drop 5 (c # cs))
          else if take 4 (c # cs) = ''null'' then Inr (JNull, drop 4 (c # cs))
          else if c = CHR ''-'' \<or> is_digit c then parse_number (c # cs)
          else Inl SyntaxError)"
| "parse_elements 0 s = Inl SyntaxError"
| "parse_elements (Suc n) s =
     (case parse_value n s of
        Inl e \<Rightarrow> Inl e
      | Inr (v, r) \<Rightarrow>
          (case skip_ws r of
             [] \<Rightarrow> Inl SyntaxError
           | c # cs \<Rightarrow>
               if c = CHR '','' then
                 (case parse_elements n cs of
                    Inl e \<Rightarrow> Inl e
                  | Inr (vs, r') \<Rightarrow> Inr (v # vs, r'))
               else if c = CHR '']'' then Inr ([v], cs)
               else Inl SyntaxError))"
| "parse_members 0 s = Inl SyntaxError"
| "parse_members (Suc n) s =
     (case skip_ws s of
        [] \<Rightarrow> Inl SyntaxError
      | c # cs \<Rightarrow>
          if c \<noteq> dquote then Inl SyntaxError
          else
            (case parse_chars cs of
               Inl e \<Rightarrow> Inl e
             | Inr (k, r) \<Rightarrow>
                 (case skip_ws r of
                    [] \<Rightarrow> Inl SyntaxError
                  | d # ds \<Rightarrow>
                      if d \<noteq> CHR '':'' then Inl SyntaxError
                      else
                        (case parse_value n ds of
                           Inl e \<Rightarrow> Inl e
                         | Inr (v, r') \<Rightarrow>
                             (case skip_ws r' of
                                [] \<Rightarrow> Inl SyntaxError
                              | x # xs \<Rightarrow>
                                  if x = CHR '','' then
                                    (case parse_members n xs of
                                       Inl e \<Rightarrow> Inl e
                                     | Inr (kvs, r'') \<Rightarrow> Inr ((k, v) # kvs, r''))
                                  else if x = CHR ''}'' then Inr ([(k, v)], xs)
                                  else Inl SyntaxError)))))"

definition JSON_parse :: "string \<Rightarrow> js_error + jsval" where
  "JSON_parse s =
     (case parse_value (Suc (length s)) s of
        Inl e \<Rightarrow> Inl e
      | Inr (v, r) \<Rightarrow> if skip_ws r = [] then Inr v else Inl SyntaxError)"

subsection \<open>String conversion\<close>

text \<open>
  \<open>ToString\<close>, which \<open>Storage.setItem\<close> applies to the value it is given: an array
  joins its elements with commas (\<open>undefined\<close> and \<open>null\<close> as the empty string), a plain
  object is \<open>[object Object]\<close>.
\<close>

fun ToString :: "jsval \<Rightarrow> string"
  and Array_join :: "jsval list \<Rightarrow> string list" where
  "ToString JUndefined = ''undefined''"
| "ToString JNull = ''null''"
| "ToString (JBool b) = (if b then ''true'' else ''false'')"
| "ToString (JNum n) = Number_toString n"
| "ToString (JStr s) = s"
| "ToString (JArr vs) = join '','' (Array_join vs)"
| "ToString (JObj kvs) = ''[object Object]''"
| "Array_join [] = []"
| "Array_join (v # vs) =
     (if v = JUndefined \<or> v = JNull then [] else ToString v) # Array_join vs"

section \<open>The environment\<close>

text \<open>
  The browser's key-value storage holds strings under string keys. Reading the
  \<open>localStorage\<close> property of the window raises \<open>SecurityError\<close> when access to the
  storage is denied, and \<open>setItem\<close> raises \<open>QuotaExceededError\<close> when the storage is full;
  the two flags say which storage the program runs against. Outside a browser there is no
  window (\<open>typeof window === "undefined"\<close>). The console records the warnings in the
  order they were written.
\<close>

record storage =
  items :: "string \<rightharpoonup> string"
  denied :: bool
  full :: bool

record window_object =
  localStorage :: storage

datatype log_arg = LogString "string option" | LogError js_error

datatype console_entry = Warn string log_arg

record world =
  window :: "window_object option"
  console :: "console_entry list"

definition window_localStorage :: "window_object \<Rightarrow> js_error + storage" where
  "window_localStorage win =
     (if denied (localStorage win) then Inl SecurityError else Inr (localStorage win))"

definition Storage_getItem :: "storage \<Rightarrow> string \<Rightarrow> string option" where
  "Storage_getItem st k = items st k"

definition Storage_setItem :: "storage \<Rightarrow> string \<Rightarrow> jsval \<Rightarrow> js_error + storage" where
  "Storage_setItem st k v =
     (if full st then Inl QuotaExceededError
      else Inr (st\<lparr>items := (items st)(k \<mapsto> ToString v)\<rparr>))"

definition console_warn :: "world \<Rightarrow> string \<Rightarrow> log_arg \<Rightarrow> world" where
  "console_warn w message arg = w\<lparr>console := console w @ [Warn message arg]\<rparr>"

text \<open>
  Events on the window: the browser's \<open>StorageEvent\<close>, whose \<open>key\<close> is the changed key
  or \<open>null\<close> (after \<open>clear()\<close>), and a plain \<open>Event\<close> of a given type, which has no
  \<open>key\<close> property.
\<close>

datatype dom_event = StorageEvent "string option" | Event string

fun event_type :: "dom_event \<Rightarrow> string" where
  "event_type (StorageEvent k) = ''storage''"
| "event_type (Event t) = t"

fun event_key :: "dom_event \<Rightarrow> string option" where
  "event_key (StorageEvent k) = k"
| "event_key (Event t) = None"

text \<open>Truthiness of a \<open>string | null | undefined\<close>: present and not empty.\<close>

definition truthy :: "string option \<Rightarrow> bool" where
  "truthy s = (case s of None \<Rightarrow> False | Some t \<Rightarrow> t \<noteq> [])"

section \<open>\<open>use-local-storage.ts\<close>\<close>

record UseLocalStorageOptions =
  raw :: bool
  serializer :: "(jsval \<Rightarrow> js_error + string) option"
  deserializer :: "(string \<Rightarrow> js_error + jsval) option"

definition default_options :: UseLocalStorageOptions where
  "default_options = \<lparr>raw = False, serializer = None, deserializer = None\<rparr>"

text \<open>\<open>SetStateAction<T>\<close>: a value, or a function of the previous value.\<close>

datatype SetStateAction = Literal jsval | Updater "jsval \<Rightarrow> js_error + jsval"

text \<open>
  \<open>parseJSON\<close> (lines 20-27): the text \<open>undefined\<close> is \<open>undefined\<close>; any other text goes
  to \<open>JSON.parse\<close>, and what that throws is caught here, logged, and answered with
  \<open>undefined\<close>.
\<close>

definition parseJSON :: "world \<Rightarrow> string option \<Rightarrow> world \<times> jsval" where
  "parseJSON w value =
     (if value = Some ''undefined'' then (w, JUndefined)
      else
        (case JSON_parse (case value of None \<Rightarrow> [] | Some s \<Rightarrow> s) of
           Inr v \<Rightarrow> (w, v)
         | Inl error \<Rightarrow> (console_warn w ''Unable to parse value:'' (LogString value), JUndefined)))"

definition get_warning :: "string \<Rightarrow> string" where
  "get_warning key = ''Unable to get value for key '' @ [dquote] @ key @ [dquote] @ '':''"

definition store_warning :: "string \<Rightarrow> string" where
  "store_warning key = ''Unable to store value for key '' @ [dquote] @ key @ [dquote] @ '':''"

text \<open>
  \<open>readValue\<close> (lines 40-61). The result is the value returned together with the world,
  whose console may have grown. In raw mode the item is returned as it is, \<open>null\<close>
  included.
\<close>

definition readValue :: "world \<Rightarrow> string \<Rightarrow> jsval \<Rightarrow> UseLocalStorageOptions \<Rightarrow> world \<times> jsval" where
  "readValue w key initialValue opts =
     (case window w of
        None \<Rightarrow> (w, initialValue)
      | Some win \<Rightarrow>
          (case window_localStorage win of
             Inl error \<Rightarrow> (console_warn w (get_warning key) (LogError error), initialValue)
           | Inr st \<Rightarrow>
               (let item = Storage_getItem st key in
                if raw opts then (w, case item of None \<Rightarrow> JNull | Some s \<Rightarrow> JStr s)
                else
                  (case deserializer opts of
                     Some deserialize \<Rightarrow>
                       (if truthy item then
                          (case deserialize (case item of None \<Rightarrow> [] | Some s \<Rightarrow> s) of
                             Inl error \<Rightarrow>
                               (console_warn w (get_warning key) (LogError error), initialValue)
                           | Inr v \<Rightarrow> (w, v))
                        else (w, initialValue))
                   | None \<Rightarrow>
                       (if truthy item then parseJSON w item else (w, initialValue))))))"

text \<open>
  The function given to \<open>useEventCallback\<close> at lines 65-87, with the \<open>storedValue\<close> of
  the render that created it. The result says what the call did: the world after it, the
  argument of \<open>setStoredValue\<close> if that was called, and the events given to
  \<open>window.dispatchEvent\<close>.
\<close>

record setValue_result =
  sv_world :: world
  sv_state :: "jsval option"
  sv_events :: "dom_event list"

definition store_failed :: "world \<Rightarrow> string \<Rightarrow> js_error \<Rightarrow> setValue_result" where
  "store_failed w key error =
     \<lparr>sv_world = console_warn w (store_warning key) (LogError error),
      sv_state = None, sv_events = []\<rparr>"

text \<open>The argument of \<open>setItem\<close> in the three branches of lines 73-79.\<close>

definition serialized :: "UseLocalStorageOptions \<Rightarrow> jsval \<Rightarrow> js_error + jsval" where
  "serialized opts newValue =
     (if raw opts then Inr newValue
      else
        (case serializer opts of
           Some serialize \<Rightarrow>
             (case serialize newValue of Inl error \<Rightarrow> Inl error | Inr s \<Rightarrow> Inr (JStr s))
         | None \<Rightarrow>
             Inr (case JSON_stringify newValue of None \<Rightarrow> JUndefined | Some s \<Rightarrow> JStr s)))"

definition setValue ::
  "world \<Rightarrow> string \<Rightarrow> UseLocalStorageOptions \<Rightarrow> jsval \<Rightarrow> SetStateAction \<Rightarrow> setValue_result" where
  "setValue w key opts storedValue value =
     (case window w of
        None \<Rightarrow> \<lparr>sv_world = w, sv_state = None, sv_events = []\<rparr>
      | Some win \<Rightarrow>
          (case (case value of Updater f \<Rightarrow> f storedValue | Literal v \<Rightarrow> Inr v) of
             Inl error \<Rightarrow> store_failed w key error
           | Inr newValue \<Rightarrow>
               (case window_localStorage win of
                  Inl error \<Rightarrow> store_failed w key error
                | Inr st \<Rightarrow>
                    (case serialized opts newValue of
                       Inl error \<Rightarrow> store_failed w key error
                     | Inr text \<Rightarrow>
                         (case Storage_setItem st key text of
                            Inl error \<Rightarrow> store_failed w key error
                          | Inr st' \<Rightarrow>
                              \<lparr>sv_world = w\<lparr>window := Some (win\<lparr>localStorage := st'\<rparr>)\<rparr>,
                               sv_state = Some newValue,
                               sv_events = [Event ''local-storage'']\<rparr>)))))"

text \<open>
  \<open>handleStorageChange\<close> (lines 93-101): \<open>Some v\<close> is the call \<open>setStoredValue(v)\<close>,
  \<open>None\<close> the early return.
\<close>

definition handleStorageChange ::
  "world \<Rightarrow> string \<Rightarrow> jsval \<Rightarrow> UseLocalStorageOptions \<Rightarrow> dom_event \<Rightarrow> world \<times> jsval option" where
  "handleStorageChange w key initialValue opts event =
     (if truthy (event_key event) \<and> event_key event \<noteq> Some key then (w, None)
      else (case readValue w key initialValue opts of (w', v) \<Rightarrow> (w', Some v)))"

section \<open>\<open>use-event-callback.ts\<close>\<close>

text \<open>
  The memory that one call of \<open>useEventCallback\<close> keeps in its component between
  renders: the object made by \<open>useRef\<close> and its \<open>current\<close> field, the dependencies
  \<open>[fn]\<close> of the effect and the effect scheduled but not yet run, and the function and
  dependencies \<open>[ref]\<close> memoised by \<open>useCallback\<close>. Objects are known by their
  identity, a natural number; \<open>'f\<close> is the type of references to the functions a caller
  supplies, equal exactly when they are the same function object.
\<close>

datatype 'f handler = RenderGuard | Supplied 'f

record 'f event_callback =
  ref_object :: nat
  ref_current :: "'f handler"
  effect_deps :: 'f
  pending_effect :: "'f option"
  memo_callback :: nat
  memo_deps :: nat

text \<open>
  Modelled from the spec: \<open>use-isomorphic-layout-effect.ts\<close> is not among the sources.
  By section 4.4 it is the framework's layout effect where there is a rendering surface
  and its plain effect elsewhere; in both cases the effect function of a render runs
  after that render, at its commit, and only when a dependency differs from the previous
  render's. On the first render the effect is always scheduled.
\<close>

definition useIsomorphicLayoutEffect :: "'f \<Rightarrow> 'f event_callback \<Rightarrow> 'f event_callback" where
  "useIsomorphicLayoutEffect fn st =
     (if fn = effect_deps st then st else st\<lparr>effect_deps := fn, pending_effect := Some fn\<rparr>)"

text \<open>
  The framework's \<open>useCallback\<close> on a re-render: the function of this render is kept
  only when the dependencies differ from the memoised ones.
\<close>

definition useCallback :: "nat \<Rightarrow> nat \<Rightarrow> 'f event_callback \<Rightarrow> 'f event_callback" where
  "useCallback arrow deps st =
     (if memo_deps st = deps then st else st\<lparr>memo_callback := arrow, memo_deps := deps\<rparr>)"

text \<open>
  \<open>useEventCallback\<close> (lines 5-17) on the first render and on a re-render. \<open>alloc\<close> is
  the next free object identity. The first render creates the ref object, holding the
  function that throws, and the arrow function \<open>(...args) => ref.current(...args)\<close>; a
  re-render gets the same ref object from \<open>useRef\<close> and creates a new arrow function,
  which \<open>useCallback\<close> keeps or drops. The second component of the result is the
  identity of the function returned.
\<close>

definition useEventCallback_mount :: "nat \<Rightarrow> 'f \<Rightarrow> 'f event_callback \<times> nat" where
  "useEventCallback_mount alloc fn =
     (\<lparr>ref_object = alloc, ref_current = RenderGuard,
       effect_deps = fn, pending_effect = Some fn,
       memo_callback = Suc alloc, memo_deps = alloc\<rparr>, Suc alloc)"

definition useEventCallback_update :: "nat \<Rightarrow> 'f \<Rightarrow> 'f event_callback \<Rightarrow> 'f event_callback \<times> nat" where
  "useEventCallback_update alloc fn st =
     (let st' = useCallback alloc (ref_object st) (useIsomorphicLayoutEffect fn st)
      in (st', memo_callback st'))"

text \<open>The effect function of line 13, run at commit: \<open>ref.current = fn\<close>.\<close>

definition run_effects :: "'f event_callback \<Rightarrow> 'f event_callback" where
  "run_effects st =
     (case pending_effect st of
        None \<Rightarrow> st
      | Some fn \<Rightarrow> st\<lparr>ref_current := Supplied fn, pending_effect := None\<rparr>)"

text \<open>
  A call of the returned function: it calls whatever \<open>ref.current\<close> holds at that
  moment. \<open>call\<close> says what a supplied function does when called.
\<close>

definition invoke :: "('f \<Rightarrow> 'a \<Rightarrow> js_error + 'r) \<Rightarrow> 'f event_callback \<Rightarrow> 'a \<Rightarrow> js_error + 'r" where
  "invoke call st args =
     (case ref_current st of
        RenderGuard \<Rightarrow> Inl (Error ''cannot call an event handler while rendering'')
      | Supplied fn \<Rightarrow> call fn args)"

text \<open>
  A component that calls the hook once: its life is a first render followed by any
  sequence of re-renders, each with the function supplied in it, and commits.
\<close>

record 'f component =
  hook :: "'f event_callback"
  returned :: nat
  next_object :: nat

datatype 'f lifecycle = Render 'f | Commit

definition mount :: "'f \<Rightarrow> 'f component" where
  "mount fn =
     (case useEventCallback_mount 0 fn of
        (st, wrapper) \<Rightarrow> \<lparr>hook = st, returned = wrapper, next_object = 2\<rparr>)"

fun step :: "'f component \<Rightarrow> 'f lifecycle \<Rightarrow> 'f component" where
  "step c (Render fn) =
     (case useEventCallback_update (next_object c) fn (hook c) of
        (st, wrapper) \<Rightarrow> \<lparr>hook = st, returned = wrapper, next_object = Suc (next_object c)\<rparr>)"
| "step c Commit = c\<lparr>hook := run_effects (hook c)\<rparr>"

definition run :: "'f component \<Rightarrow> 'f lifecycle list \<Rightarrow> 'f component" where
  "run c ops = foldl step c ops"

section \<open>The hook in its component\<close>


text \<open>
  One mounted use of the hook: its arguments, its state, and whether its listeners are
  attached.
\<close>

record hook_instance =
  hook_key :: string
  hook_initialValue :: jsval
  hook_options :: UseLocalStorageOptions
  hook_storedValue :: jsval
  listening :: bool

text \<open>The first render (line 63): \<open>useState(readValue)\<close> takes the initial state from \<open>readValue\<close>.\<close>

definition useLocalStorage_mount ::
  "world \<Rightarrow> string \<Rightarrow> jsval \<Rightarrow> UseLocalStorageOptions \<Rightarrow> world \<times> hook_instance" where
  "useLocalStorage_mount w key initialValue opts =
     (case readValue w key initialValue opts of
        (w', v) \<Rightarrow>
          (w', \<lparr>hook_key = key, hook_initialValue = initialValue, hook_options = opts,
                hook_storedValue = v, listening = False\<rparr>))"

text \<open>
  The effects of the first commit: lines 89-91 read the value again, and the two
  listeners of lines 103-105 are attached.
\<close>

definition useLocalStorage_effects :: "world \<Rightarrow> hook_instance \<Rightarrow> world \<times> hook_instance" where
  "useLocalStorage_effects w inst =
     (case readValue w (hook_key inst) (hook_initialValue inst) (hook_options inst) of
        (w', v) \<Rightarrow> (w', inst\<lparr>hook_storedValue := v, listening := True\<rparr>))"

text \<open>
  Modelled from the spec: \<open>use-event-listener.ts\<close> is not among the sources. By section
  4.3 it attaches the handler to the window for the events of the given name while the
  component is mounted. Lines 103-105 attach \<open>handleStorageChange\<close> for the events
  \<open>storage\<close> and \<open>local-storage\<close>; an instance that receives one runs the handler and
  takes the state the handler sets.
\<close>

definition useEventListener :: "dom_event \<Rightarrow> world \<Rightarrow> hook_instance \<Rightarrow> world \<times> hook_instance" where
  "useEventListener event w inst =
     (if listening inst \<and> (event_type event = ''storage'' \<or> event_type event = ''local-storage'') then
        (case handleStorageChange w (hook_key inst) (hook_initialValue inst) (hook_options inst) event of
           (w', None) \<Rightarrow> (w', inst)
         | (w', Some v) \<Rightarrow> (w', inst\<lparr>hook_storedValue := v\<rparr>))
      else (w, inst))"

text \<open>
  \<open>window.dispatchEvent\<close> calls the listeners one after the other before it returns;
  the instances of a document are the list \<open>insts\<close>.
\<close>

fun window_dispatchEvent :: "dom_event \<Rightarrow> world \<Rightarrow> hook_instance list \<Rightarrow> world \<times> hook_instance list" where
  "window_dispatchEvent event w [] = (w, [])"
| "window_dispatchEvent event w (inst # insts) =
     (case useEventListener event w inst of
        (w1, inst') \<Rightarrow>
          (case window_dispatchEvent event w1 insts of
             (w2, insts') \<Rightarrow> (w2, inst' # insts')))"

fun dispatch_all :: "dom_event list \<Rightarrow> world \<Rightarrow> hook_instance list \<Rightarrow> world \<times> hook_instance list" where
  "dispatch_all [] w insts = (w, insts)"
| "dispatch_all (event # events) w insts =
     (case window_dispatchEvent event w insts of (w', insts') \<Rightarrow> dispatch_all events w' insts')"

text \<open>
  A write by the \<open>i\<close>-th instance of the document, after its first commit: the function
  of lines 65-87 runs with that instance's state, the state it sets is taken, and the
  event it dispatches reaches every listener. The instance itself listens too, so its own
  handler runs after \<open>setStoredValue(newValue)\<close> and the state it is left with is the one
  read back. Before the first commit of an instance its setter cannot be called (it
  throws, see \<open>invoke\<close>); for such an index, and for one beyond the list, the document
  stays as it is.
\<close>

definition write_from :: "nat \<Rightarrow> SetStateAction \<Rightarrow> world \<Rightarrow> hook_instance list \<Rightarrow> world \<times> hook_instance list" where
  "write_from i value w insts =
     (if i < length insts \<and> listening (insts ! i) then
        (let inst = insts ! i;
             r = setValue w (hook_key inst) (hook_options inst) (hook_storedValue inst) value;
             insts' = (case sv_state r of
                         None \<Rightarrow> insts
                       | Some v \<Rightarrow> insts[i := inst\<lparr>hook_storedValue := v\<rparr>])
         in dispatch_all (sv_events r) (sv_world r) insts')
      else (w, insts))"

section \<open>Notions used in the statements\<close>



text \<open>The function supplied in the most recent render of a component's life so far.\<close>

fun last_supplied :: "'f \<Rightarrow> 'f lifecycle list \<Rightarrow> 'f" where
  "last_supplied fn [] = fn"
| "last_supplied fn (Render g # ops) = last_supplied g ops"
| "last_supplied fn (Commit # ops) = last_supplied fn ops"

text \<open>
  What holds of a component at every moment of its life: it returns the memoised
  function, memoised for the ref object; a scheduled effect is for the function of the
  last render, and with no effect scheduled the ref holds that function.
\<close>

definition settled :: "'f component \<Rightarrow> bool" where
  "settled c =
     (returned c = memo_callback (hook c) \<and> memo_deps (hook c) = ref_object (hook c)
      \<and> (case pending_effect (hook c) of
            Some f \<Rightarrow> f = effect_deps (hook c)
          | None \<Rightarrow> ref_current (hook c) = Supplied (effect_deps (hook c))))"

subsection \<open>Sample data\<close>

text \<open>A browser with a working storage holding \<open>m\<close>, and a server, where there is no window.\<close>

definition browser :: "(string \<rightharpoonup> string) \<Rightarrow> world" where
  "browser m =
     \<lparr>window = Some \<lparr>localStorage = \<lparr>items = m, denied = False, full = False\<rparr>\<rparr>, console = []\<rparr>"


definition corrupted :: world where
  "corrupted = browser [''theme'' \<mapsto> ''{bad'']"



definition throwing_options :: UseLocalStorageOptions where
  "throwing_options =
     \<lparr>raw = False, serializer = None,
      deserializer = Some (\<lambda>s. Inl (Error ''deserializer called''))\<rparr>"


definition label :: "nat \<Rightarrow> nat \<Rightarrow> js_error + nat \<times> nat" where
  "label f x = Inr (f, x)"

definition theme_hook :: hook_instance where
  "theme_hook =
     \<lparr>hook_key = ''theme'', hook_initialValue = JStr ''light'', hook_options = default_options,
      hook_storedValue = JStr ''light'', listening = True\<rparr>"

definition lang_hook :: hook_instance where
  "lang_hook =
     \<lparr>hook_key = ''lang'', hook_initialValue = JStr ''en'',
      hook_options = default_options\<lparr>raw := True\<rparr>,
      hook_storedValue = JStr ''en'', listening = True\<rparr>"

section \<open>The JSON round trip\<close>

subsection \<open>Numbers\<close>








declare nat_text.simps [simp del]









subsection \<open>Strings\<close>






subsection \<open>Values\<close>

declare parse_value.simps [simp del] parse_elements.simps [simp del] parse_members.simps [simp del]























section \<open>The life of a stable callback\<close>

lemma run_renders_guard:
  "ref_current (hook (foldl step c (map Render fns))) = ref_current (hook c)"
  by (induction fns arbitrary: c)
    (simp_all add: useEventCallback_update_def useCallback_def useIsomorphicLayoutEffect_def Let_def)

lemma settled_mount: "settled (mount fn)"
  by (simp add: settled_def mount_def useEventCallback_mount_def)

lemma settled_step: "settled c \<Longrightarrow> settled (step c op)"
  by (cases op)
    (auto simp add: settled_def useEventCallback_update_def useCallback_def
      useIsomorphicLayoutEffect_def run_effects_def Let_def split: option.splits)

lemma returned_step: "settled c \<Longrightarrow> returned (step c op) = returned c"
  by (cases op)
    (auto simp add: settled_def useEventCallback_update_def useCallback_def
      useIsomorphicLayoutEffect_def run_effects_def Let_def split: option.splits)

lemma effect_deps_step:
  "effect_deps (hook (step c op)) = (case op of Render g \<Rightarrow> g | Commit \<Rightarrow> effect_deps (hook c))"
  by (cases op)
    (auto simp add: useEventCallback_update_def useCallback_def
      useIsomorphicLayoutEffect_def run_effects_def Let_def split: option.splits)

lemma settled_foldl: "settled c \<Longrightarrow> settled (foldl step c ops)"
  by (induction ops arbitrary: c) (simp_all add: settled_step)

lemma returned_foldl: "settled c \<Longrightarrow> returned (foldl step c ops) = returned c"
  by (induction ops arbitrary: c) (simp_all add: settled_step returned_step)

lemma effect_deps_foldl:
  "effect_deps (hook (foldl step c ops)) = last_supplied (effect_deps (hook c)) ops"
proof (induction ops arbitrary: c)
  case Nil
  show ?case by simp
next
  case (Cons op ops)
  show ?case
    by (cases op) (simp_all add: Cons.IH effect_deps_step del: step.simps)
qed

lemma commit_settled:
  "settled c \<Longrightarrow> ref_current (hook (step c Commit)) = Supplied (effect_deps (hook c))"
  by (auto simp add: settled_def run_effects_def split: option.splits)

lemma render_keeps_current: "ref_current (hook (step c (Render g))) = ref_current (hook c)"
  by (simp add: useEventCallback_update_def useCallback_def useIsomorphicLayoutEffect_def Let_def)

section \<open>Reading, writing and notifying\<close>

lemma parseJSON_window: "window (fst (parseJSON w item)) = window w"
  by (simp add: parseJSON_def console_warn_def split: sum.splits)

lemma parseJSON_value: "window w1 = window w2 \<Longrightarrow> snd (parseJSON w1 item) = snd (parseJSON w2 item)"
  by (simp add: parseJSON_def split: sum.splits)

lemma readValue_window: "window (fst (readValue w key d opts)) = window w"
  by (simp add: readValue_def console_warn_def parseJSON_window Let_def
      split: option.splits sum.splits)

lemma readValue_value:
  "window w1 = window w2 \<Longrightarrow> snd (readValue w1 key d opts) = snd (readValue w2 key d opts)"
  by (simp add: readValue_def Let_def parseJSON_value [of w1 w2] split: option.splits sum.splits)

lemma listener_window: "window (fst (useEventListener event w inst)) = window w"
  using readValue_window [of w "hook_key inst" "hook_initialValue inst" "hook_options inst"]
  by (simp add: useEventListener_def handleStorageChange_def split_beta split: option.splits)

lemma listener_value:
  "window w1 = window w2 \<Longrightarrow>
   snd (useEventListener event w1 inst) = snd (useEventListener event w2 inst)"
  using readValue_value [of w1 w2 "hook_key inst" "hook_initialValue inst" "hook_options inst"]
  by (auto simp add: useEventListener_def handleStorageChange_def split_beta)

lemma dispatch_window: "window (fst (window_dispatchEvent event w insts)) = window w"
proof (induction insts arbitrary: w)
  case Nil
  show ?case by simp
next
  case (Cons inst insts)
  show ?case
    using Cons.IH [of "fst (useEventListener event w inst)"] listener_window [of event w inst]
    by (simp add: split_beta)
qed

lemma dispatch_instances:
  "snd (window_dispatchEvent event w insts) = map (\<lambda>inst. snd (useEventListener event w inst)) insts"
proof (induction insts arbitrary: w)
  case Nil
  show ?case by simp
next
  case (Cons inst insts)
  have "\<And>x. snd (useEventListener event (fst (useEventListener event w inst)) x)
          = snd (useEventListener event w x)"
    by (rule listener_value) (rule listener_window)
  with Cons.IH [of "fst (useEventListener event w inst)"] show ?case
    by (simp add: split_beta)
qed

lemma listener_local_storage:
  "listening inst \<Longrightarrow>
   snd (useEventListener (Event ''local-storage'') w inst)
     = inst\<lparr>hook_storedValue := snd (readValue w (hook_key inst) (hook_initialValue inst) (hook_options inst))\<rparr>"
  by (simp add: useEventListener_def handleStorageChange_def truthy_def split_beta)

lemma setValue_success:
  assumes "sv_state (setValue w key opts prev value) = Some v"
  shows "sv_events (setValue w key opts prev value) = [Event ''local-storage'']"
  using assms
  by (auto simp add: setValue_def store_failed_def split: option.splits sum.splits)


lemma setValue_JSON:
  assumes "window w = Some win" and "\<not> denied (localStorage win)" and "\<not> full (localStorage win)"
    and "JSON_stringify V = Some t"
  shows "setValue w key default_options prev (Literal V)
     = \<lparr>sv_world = w\<lparr>window := Some (win\<lparr>localStorage := (localStorage win)\<lparr>items := (items (localStorage win))(key \<mapsto> t)\<rparr>\<rparr>)\<rparr>,
        sv_state = Some V, sv_events = [Event ''local-storage'']\<rparr>"
  using assms
  by (simp add: setValue_def window_localStorage_def Storage_setItem_def serialized_def
      default_options_def)

lemma write_from_success:
  assumes "i < length insts" and "listening (insts ! i)"
    and "sv_state (setValue w (hook_key (insts ! i)) (hook_options (insts ! i))
           (hook_storedValue (insts ! i)) value) = Some v"
  shows "snd (write_from i value w insts)
      = map (\<lambda>inst. snd (useEventListener (Event ''local-storage'')
               (sv_world (setValue w (hook_key (insts ! i)) (hook_options (insts ! i))
                  (hook_storedValue (insts ! i)) value)) inst))
          (insts[i := (insts ! i)\<lparr>hook_storedValue := v\<rparr>])"
  using assms setValue_success [OF assms(3)]
  by (simp add: write_from_def Let_def dispatch_instances split_beta)

lemma write_from_listener:
  assumes "i < length insts" and "listening (insts ! i)"
    and "sv_state (setValue w (hook_key (insts ! i)) (hook_options (insts ! i))
           (hook_storedValue (insts ! i)) value) = Some v"
    and "j < length insts" and "listening (insts ! j)"
  shows "hook_storedValue (snd (write_from i value w insts) ! j)
      = snd (readValue (sv_world (setValue w (hook_key (insts ! i)) (hook_options (insts ! i))
                  (hook_storedValue (insts ! i)) value))
              (hook_key (insts ! j)) (hook_initialValue (insts ! j)) (hook_options (insts ! j)))"
proof -
  define insts' where "insts' = insts[i := (insts ! i)\<lparr>hook_storedValue := v\<rparr>]"
  have same: "listening (insts' ! j) = listening (insts ! j) \<and> hook_key (insts' ! j) = hook_key (insts ! j)
      \<and> hook_initialValue (insts' ! j) = hook_initialValue (insts ! j)
      \<and> hook_options (insts' ! j) = hook_options (insts ! j)"
    using assms(1,4) by (simp add: insts'_def nth_list_update)
  then have "listening (insts' ! j)" using assms(5) by simp
  from listener_local_storage [OF this] same assms(4) show ?thesis
    by (simp add: write_from_success [OF assms(1-3)] insts'_def [symmetric])
       (simp add: insts'_def)
qed


lemma browser_window:
  "window (browser m) = Some \<lparr>localStorage = \<lparr>items = m, denied = False, full = False\<rparr>\<rparr>"
  by (simp add: browser_def)





section \<open>The claims\<close>

subsection \<open>Reading\<close>

text \<open>
  Claim C1. When the stored string is present but cannot be deserialized, the read path
  in the default JSON mode logs a diagnostic and returns the caller's default, without
  raising. The code logs and does not raise, but it returns \<open>undefined\<close>: with the text
  \<open>{bad\<close> under the key, \<open>parseJSON\<close> catches the error of \<open>JSON.parse\<close> itself and
  answers \<open>undefined\<close>, so the \<open>catch\<close> of \<open>readValue\<close> that returns the default is
  never reached. The sibling path does fall back: on the same storage a custom
  deserializer that throws makes \<open>readValue\<close> return the default.
\<close>

theorem parse_failure_returns_undefined:
  "readValue corrupted ''theme'' (JStr ''light'') default_options
     = (console_warn corrupted ''Unable to parse value:'' (LogString (Some ''{bad'')), JUndefined)
   \<and> snd (readValue corrupted ''theme'' (JStr ''light'') throwing_options) = JStr ''light''"
  by (simp add: corrupted_def browser_def readValue_def window_localStorage_def Storage_getItem_def
      default_options_def throwing_options_def truthy_def parseJSON_def JSON_parse_def
      parse_value.simps parse_members.simps skip_ws_def is_ws_def dquote_def Let_def)

text \<open>
  Claim C3. For a key absent from the storage the hook's initial value is the caller's
  default, in every mode. In raw mode the code returns the item before it looks whether
  there is one: the initial value, and the value after the effect of the first commit,
  is \<open>null\<close>. The default mode on the same storage returns the default.
\<close>

theorem raw_mode_absent_key_is_null:
  "hook_storedValue (snd (useLocalStorage_mount (browser Map.empty) ''theme'' (JStr ''light'')
      (default_options\<lparr>raw := True\<rparr>))) = JNull
   \<and> hook_storedValue (snd (useLocalStorage_effects (browser Map.empty)
        (snd (useLocalStorage_mount (browser Map.empty) ''theme'' (JStr ''light'')
          (default_options\<lparr>raw := True\<rparr>))))) = JNull
   \<and> hook_storedValue (snd (useLocalStorage_mount (browser Map.empty) ''theme'' (JStr ''light'')
        default_options)) = JStr ''light''"
  by (simp add: useLocalStorage_mount_def useLocalStorage_effects_def browser_def readValue_def
      window_localStorage_def Storage_getItem_def default_options_def truthy_def)

text \<open>
  Claim C9. An empty stored string is read as an absent key in the default mode and
  with a custom deserializer: in a browser whose storage can be read and outside raw
  mode, \<open>readValue\<close> returns the default and leaves the world, console included, as it
  was, whether the item is the empty string or missing. This holds for every
  deserializer, also one that would throw, so the deserializer is not called.
\<close>

theorem readValue_empty_item_is_absent:
  assumes "window w = Some win" and "\<not> denied (localStorage win)" and "\<not> raw opts"
    and "items (localStorage win) key = Some [] \<or> items (localStorage win) key = None"
  shows "readValue w key initialValue opts = (w, initialValue)"
  using assms
  by (auto simp add: readValue_def window_localStorage_def Storage_getItem_def truthy_def Let_def
      split: option.splits)

theorem readValue_empty_item_is_absent_witness:
  "\<not> raw throwing_options
   \<and> readValue (browser [''theme'' \<mapsto> []]) ''theme'' (JStr ''light'') throwing_options
       = (browser [''theme'' \<mapsto> []], JStr ''light'')
   \<and> readValue (browser Map.empty) ''theme'' (JStr ''light'') throwing_options
       = (browser Map.empty, JStr ''light'')"
  using readValue_empty_item_is_absent [OF browser_window [of "[''theme'' \<mapsto> []]"],
      where opts = throwing_options and key = "''theme''" and initialValue = "JStr ''light''"]
    readValue_empty_item_is_absent [OF browser_window [of Map.empty],
      where opts = throwing_options and key = "''theme''" and initialValue = "JStr ''light''"]
  by (simp add: throwing_options_def)



subsection \<open>Writing\<close>





subsection \<open>The stable callback\<close>

text \<open>
  Claim C6, as amended. The function returned by the stable-callback hook is the same
  object after every sequence of re-renders and commits. Once the effect of a render has
  run, a call of it calls the function supplied in the most recent render, with the same
  arguments and the same result, whatever was supplied before. A re-render alone does not
  change what it calls: until the effect of that render runs, it still calls what it
  called before.
\<close>

theorem wrapper_stable_calls_committed:
  "returned (run (mount fn) ops) = returned (mount fn)
   \<and> invoke call (hook (run (mount fn) (ops @ [Commit]))) args = call (last_supplied fn ops) args
   \<and> invoke call (hook (step (run (mount fn) ops) (Render g))) args
       = invoke call (hook (run (mount fn) ops)) args"
proof -
  have a: "returned (run (mount fn) ops) = returned (mount fn)"
    by (simp add: run_def returned_foldl settled_mount)
  have "ref_current (hook (run (mount fn) (ops @ [Commit])))
          = Supplied (effect_deps (hook (foldl step (mount fn) ops)))"
    using commit_settled [OF settled_foldl [OF settled_mount, of fn ops]]
    by (simp add: run_def)
  moreover have "effect_deps (hook (mount fn)) = fn"
    by (simp add: mount_def useEventCallback_mount_def)
  ultimately have b: "invoke call (hook (run (mount fn) (ops @ [Commit]))) args
      = call (last_supplied fn ops) args"
    by (simp add: invoke_def effect_deps_foldl)
  have c: "invoke call (hook (step (run (mount fn) ops) (Render g))) args
       = invoke call (hook (run (mount fn) ops)) args"
    by (simp add: invoke_def render_keeps_current del: step.simps)
  from a b c show ?thesis by simp
qed

text \<open>
  The claim as stated fails between a re-render and its commit: after the first effect
  has run and a second render has supplied function 2, a call still reaches function 1.
\<close>

theorem wrapper_calls_stale_function:
  "invoke label (hook (run (mount (1::nat)) [Commit, Render 2])) (0::nat) = label 1 0
   \<and> label 1 0 \<noteq> label 2 (0::nat)"
  by (simp add: run_def mount_def invoke_def useEventCallback_mount_def useEventCallback_update_def
      useCallback_def useIsomorphicLayoutEffect_def run_effects_def Let_def label_def)

text \<open>
  Claim C7. Before the first effect has run, that is after the first render and any
  number of re-renders with no commit, a call of the returned function raises the error
  \<open>cannot call an event handler while rendering\<close>, for every supplied function and all
  arguments.
\<close>

theorem wrapper_throws_before_first_effect:
  "invoke call (hook (run (mount fn) (map Render fns))) args
     = Inl (Error ''cannot call an event handler while rendering'')"
  by (simp add: run_def run_renders_guard invoke_def mount_def useEventCallback_mount_def)

subsection \<open>Notifications\<close>




text \<open>
  Claim C10. The event the setter dispatches is a plain \<open>local-storage\<close> event, which
  has no key. So after a write that took place, whichever key it was for, every listening
  instance of the document has read its own key again: its state is what \<open>readValue\<close>
  yields for its key, default and options in the world the write left.
\<close>

theorem local_write_rereads_every_instance:
  assumes "i < length insts" and "listening (insts ! i)"
    and "sv_state (setValue w (hook_key (insts ! i)) (hook_options (insts ! i))
           (hook_storedValue (insts ! i)) action) = Some v"
  shows "(let r = setValue w (hook_key (insts ! i)) (hook_options (insts ! i))
                    (hook_storedValue (insts ! i)) action;
              after = snd (write_from i action w insts)
          in sv_events r = [Event ''local-storage''] \<and> event_key (Event ''local-storage'') = None
             \<and> length after = length insts
             \<and> (\<forall>j < length insts. listening (insts ! j) \<longrightarrow>
                  hook_storedValue (after ! j)
                    = snd (readValue (sv_world r) (hook_key (insts ! j)) (hook_initialValue (insts ! j))
                        (hook_options (insts ! j)))))"
proof -
  have "length (snd (write_from i action w insts)) = length insts"
    by (simp add: write_from_success [OF assms])
  with setValue_success [OF assms(3)] write_from_listener [OF assms] show ?thesis
    by (simp add: Let_def)
qed

theorem local_write_rereads_every_instance_witness:
  "listening ([theme_hook, lang_hook] ! 0)
   \<and> sv_state (setValue (browser [''lang'' \<mapsto> ''fr'']) ''theme'' default_options (JStr ''light'')
        (Literal (JStr ''dark''))) = Some (JStr ''dark'')
   \<and> hook_key lang_hook \<noteq> hook_key theme_hook \<and> listening lang_hook
   \<and> hook_storedValue lang_hook = JStr ''en''
   \<and> hook_storedValue
        (snd (write_from 0 (Literal (JStr ''dark'')) (browser [''lang'' \<mapsto> ''fr'']) [theme_hook, lang_hook]) ! 1)
       = JStr ''fr''"
proof -
  define w where "w = browser [''lang'' \<mapsto> ''fr'']"
  define insts where "insts = [theme_hook, lang_hook]"
  have i: "0 < length insts" "listening (insts ! 0)" "hook_key (insts ! 0) = ''theme''"
    "hook_options (insts ! 0) = default_options" "hook_storedValue (insts ! 0) = JStr ''light''"
    by (simp_all add: insts_def theme_hook_def)
  have win: "window w = Some \<lparr>localStorage = \<lparr>items = [''lang'' \<mapsto> ''fr''], denied = False, full = False\<rparr>\<rparr>"
    by (simp add: w_def browser_window)
  have t: "JSON_stringify (JStr ''dark'') = Some (QuoteJSONString ''dark'')"
    by (simp add: JSON_stringify_def)
  note sv = setValue_JSON [OF win _ _ t, of "''theme''" "JStr ''light''", simplified]
  have s: "sv_state (setValue w (hook_key (insts ! 0)) (hook_options (insts ! 0))
           (hook_storedValue (insts ! 0)) (Literal (JStr ''dark''))) = Some (JStr ''dark'')"
    by (simp add: i sv)
  have l: "Suc 0 < length insts" "listening (insts ! Suc 0)" "hook_key (insts ! Suc 0) = ''lang''"
    "hook_initialValue (insts ! Suc 0) = JStr ''en''" "raw (hook_options (insts ! Suc 0))"
    by (simp_all add: insts_def lang_hook_def)
  from local_write_rereads_every_instance [OF i(1,2) s] l(1,2)
  have "hook_storedValue (snd (write_from 0 (Literal (JStr ''dark'')) w insts) ! Suc 0)
      = snd (readValue (sv_world (setValue w ''theme'' default_options (JStr ''light'') (Literal (JStr ''dark''))))
          (hook_key (insts ! Suc 0)) (hook_initialValue (insts ! Suc 0)) (hook_options (insts ! Suc 0)))"
    by (simp add: Let_def i)
  also have "\<dots> = JStr ''fr''"
    by (simp add: sv l(3-5) readValue_def window_localStorage_def Storage_getItem_def)
  finally show ?thesis
    using s i
    by (simp add: w_def insts_def theme_hook_def lang_hook_def)
qed

end
